theory Spec2Isabelle
  imports Main "HOL-Library.Word" "HOL-Library.Sublist" "HOL-Library.AList"
begin

section \<open>JavaScript strings\<close>

text \<open>
  A JavaScript string is a sequence of UTF-16 code units: \<open>length\<close>, \<open>indexOf\<close>,
  \<open>substring\<close> and \<open>trim\<close> all count code units. \<open>js\<close> turns an ASCII literal into
  such a sequence; the few characters of \<^verbatim>\<open>prompts.ts\<close> beyond ASCII are written as their
  code unit.
\<close>

type_synonym jschar = "16 word"
type_synonym jsstring = "jschar list"

definition js :: "string \<Rightarrow> jsstring" where
  "js s = map of_char s"

text \<open>\<^verbatim>\<open>String.prototype.trim\<close> removes WhiteSpace and LineTerminator code units at both ends.\<close>

definition isWhiteSpace :: "jschar \<Rightarrow> bool" where
  "isWhiteSpace c \<longleftrightarrow>
     c = 0x09 \<or> c = 0x0A \<or> c = 0x0B \<or> c = 0x0C \<or> c = 0x0D \<or> c = 0x20 \<or> c = 0xA0 \<or>
     c = 0x1680 \<or> (0x2000 \<le> c \<and> c \<le> 0x200A) \<or> c = 0x2028 \<or> c = 0x2029 \<or>
     c = 0x202F \<or> c = 0x205F \<or> c = 0x3000 \<or> c = 0xFEFF"

definition trim :: "jsstring \<Rightarrow> jsstring" where
  "trim s = rev (dropWhile isWhiteSpace (rev (dropWhile isWhiteSpace s)))"

definition startsWith :: "jsstring \<Rightarrow> jsstring \<Rightarrow> bool" where
  "startsWith s searchString = prefix searchString s"

text \<open>\<^verbatim>\<open>s.indexOf(p)\<close>: the least index at which \<open>p\<close> occurs in \<open>s\<close>, or \<open>-1\<close>.\<close>

fun indexOf_from :: "jsstring \<Rightarrow> jsstring \<Rightarrow> int \<Rightarrow> int" where
  "indexOf_from [] p k = (if p = [] then k else -1)"
| "indexOf_from (c # cs) p k = (if prefix p (c # cs) then k else indexOf_from cs p (k + 1))"

definition indexOf :: "jsstring \<Rightarrow> jsstring \<Rightarrow> int" where
  "indexOf s p = indexOf_from s p 0"

text \<open>\<^verbatim>\<open>s.lastIndexOf(p)\<close>: the greatest index at which \<open>p\<close> occurs in \<open>s\<close>, or \<open>-1\<close>.\<close>

fun lastIndexOf_from :: "jsstring \<Rightarrow> jsstring \<Rightarrow> int \<Rightarrow> int \<Rightarrow> int" where
  "lastIndexOf_from [] p k found = (if p = [] then k else found)"
| "lastIndexOf_from (c # cs) p k found =
     lastIndexOf_from cs p (k + 1) (if prefix p (c # cs) then k else found)"

definition lastIndexOf :: "jsstring \<Rightarrow> jsstring \<Rightarrow> int" where
  "lastIndexOf s p = lastIndexOf_from s p 0 (-1)"

text \<open>
  \<^verbatim>\<open>s.substring(start, end)\<close>: both arguments are clamped to \<open>0 .. length s\<close> and swapped
  when \<open>start > end\<close>.
\<close>

definition substring :: "jsstring \<Rightarrow> int \<Rightarrow> int \<Rightarrow> jsstring" where
  "substring s start end =
     (let len = int (length s);
          finalStart = min (max start 0) len;
          finalEnd = min (max end 0) len;
          from = min finalStart finalEnd;
          to = max finalStart finalEnd
      in take (nat (to - from)) (drop (nat from) s))"

section \<open>JavaScript values and \<^verbatim>\<open>JSON.stringify\<close>\<close>

text \<open>
  The plain data that the module handles. An object is its list of own enumerable
  properties in enumeration order (\<^verbatim>\<open>Object.keys\<close> and \<^verbatim>\<open>JSON.stringify\<close> follow it); a
  property may hold \<^verbatim>\<open>undefined\<close>. A number is kept as the decimal literal that denotes
  it, in the form \<^verbatim>\<open>Number.prototype.toString\<close> prints (\<^verbatim>\<open>156\<close>, \<^verbatim>\<open>11.3\<close>): the
  rounding to a double is not modelled.
\<close>

datatype jsval =
    JUndefined
  | JNull
  | JBool bool
  | JNumber jsstring
  | JString jsstring
  | JArray "jsval list"
  | JObject "(jsstring \<times> jsval) list"

type_synonym jsobject = "(jsstring \<times> jsval) list"

definition Object_keys :: "jsobject \<Rightarrow> jsstring list" where
  "Object_keys obj = map fst obj"

definition hexDigit :: "nat \<Rightarrow> jschar" where
  "hexDigit d = (if d < 10 then of_nat (48 + d) else of_nat (87 + d))"

definition UnicodeEscape :: "jschar \<Rightarrow> jsstring" where
  "UnicodeEscape c =
     [0x5C, 0x75] @ map (\<lambda>k. hexDigit ((unat c div 16 ^ k) mod 16)) [3, 2, 1, 0]"

definition isLeadingSurrogate :: "jschar \<Rightarrow> bool" where
  "isLeadingSurrogate c \<longleftrightarrow> 0xD800 \<le> c \<and> c \<le> 0xDBFF"

definition isTrailingSurrogate :: "jschar \<Rightarrow> bool" where
  "isTrailingSurrogate c \<longleftrightarrow> 0xDC00 \<le> c \<and> c \<le> 0xDFFF"

definition QuoteUnit :: "jschar \<Rightarrow> jsstring" where
  "QuoteUnit c =
     (if c = 0x08 then [0x5C, 0x62]
      else if c = 0x09 then [0x5C, 0x74]
      else if c = 0x0A then [0x5C, 0x6E]
      else if c = 0x0C then [0x5C, 0x66]
      else if c = 0x0D then [0x5C, 0x72]
      else if c = 0x22 then [0x5C, 0x22]
      else if c = 0x5C then [0x5C, 0x5C]
      else if c < 0x20 \<or> isLeadingSurrogate c \<or> isTrailingSurrogate c then UnicodeEscape c
      else [c])"

fun QuoteUnits :: "jsstring \<Rightarrow> jsstring" where
  "QuoteUnits [] = []"
| "QuoteUnits [c] = QuoteUnit c"
| "QuoteUnits (c # d # cs) =
     (if isLeadingSurrogate c \<and> isTrailingSurrogate d then c # d # QuoteUnits cs
      else QuoteUnit c @ QuoteUnits (d # cs))"

definition QuoteJSONString :: "jsstring \<Rightarrow> jsstring" where
  "QuoteJSONString s = [0x22] @ QuoteUnits s @ [0x22]"

fun join :: "jsstring \<Rightarrow> jsstring list \<Rightarrow> jsstring" where
  "join sep [] = []"
| "join sep [x] = x"
| "join sep (x # y # xs) = x @ sep @ join sep (y # xs)"

text \<open>
  \<^verbatim>\<open>JSON.stringify\<close> without replacer or indentation. A property holding \<^verbatim>\<open>undefined\<close>
  is left out of an object and printed as \<^verbatim>\<open>null\<close> in an array.
\<close>

fun SerializeJSONProperty :: "jsval \<Rightarrow> jsstring option"
  and SerializeJSONArray :: "jsval list \<Rightarrow> jsstring list"
  and SerializeJSONObject :: "(jsstring \<times> jsval) list \<Rightarrow> jsstring list"
where
  "SerializeJSONProperty JUndefined = None"
| "SerializeJSONProperty JNull = Some (js ''null'')"
| "SerializeJSONProperty (JBool b) = Some (if b then js ''true'' else js ''false'')"
| "SerializeJSONProperty (JNumber n) = Some n"
| "SerializeJSONProperty (JString s) = Some (QuoteJSONString s)"
| "SerializeJSONProperty (JArray vs) =
     Some (js ''['' @ join (js '','') (SerializeJSONArray vs) @ js '']'')"
| "SerializeJSONProperty (JObject ps) =
     Some (js ''{'' @ join (js '','') (SerializeJSONObject ps) @ js ''}'')"
| "SerializeJSONArray [] = []"
| "SerializeJSONArray (v # vs) =
     (case SerializeJSONProperty v of None \<Rightarrow> js ''null'' | Some s \<Rightarrow> s)
       # SerializeJSONArray vs"
| "SerializeJSONObject [] = []"
| "SerializeJSONObject ((k, v) # ps) =
     (case SerializeJSONProperty v of
        None \<Rightarrow> SerializeJSONObject ps
      | Some s \<Rightarrow> (QuoteJSONString k @ js '':'' @ s) # SerializeJSONObject ps)"

text \<open>\<^verbatim>\<open>JSON.stringify(obj)\<close> on an object, where the result is always a string.\<close>

definition JSON_stringify :: "jsobject \<Rightarrow> jsstring" where
  "JSON_stringify obj = js ''{'' @ join (js '','') (SerializeJSONObject obj) @ js ''}''"

section \<open>The prompt module \<^verbatim>\<open>prompts.ts\<close>\<close>

subsection \<open>Types\<close>

text \<open>
  \<^verbatim>\<open>UserProfile\<close> and \<^verbatim>\<open>SessionState\<close> are object types all of whose properties are
  optional; \<^verbatim>\<open>buildMessages\<close> only inspects such an object through \<^verbatim>\<open>Object.keys\<close> and
  \<^verbatim>\<open>JSON.stringify\<close>, so it is modelled as the object itself. An optional property of
  \<^verbatim>\<open>BuildMessagesOptions\<close> is \<open>None\<close> when it is omitted (or \<^verbatim>\<open>undefined\<close>).
\<close>

datatype role = System | User | Assistant

record message =
  role :: role
  content :: jsstring

record BuildMessagesOptions =
  userName :: "jsstring option"
  userProfile :: "jsobject option"
  sessionState :: "jsobject option"
  userMessage :: jsstring
  requireJSONResponse :: "bool option"
  language :: "jsstring option"

text \<open>
  The three constants imported from \<^verbatim>\<open>./config\<close>, a file that is not part of the sources
  at hand: they are parameters of everything that depends on them.
\<close>

record config =
  DATE_AND_TIME :: jsstring
  OWNER_NAME :: jsstring
  AI_NAME :: jsstring

subsection \<open>Prompt sections\<close>

definition IDENTITY_PROMPT :: "config \<Rightarrow> jsstring" where
  \<open>IDENTITY_PROMPT cfg = trim (
     js ''\<newline>'' @
     js ''You are '' @
     AI_NAME cfg @
     js '', an agentic assistant. You are designed by '' @
     OWNER_NAME cfg @
     js '', not OpenAI, Anthropic, or any other third-party AI vendor.\<newline>'')\<close>

definition TOOL_CALLING_PROMPT :: "jsstring" where
  \<open>TOOL_CALLING_PROMPT = trim (
     js ''\<newline>'' @
     js ''- In order to be as truthful as possible, call tools to gather context before answering.\<newline>'' @
     js ''- Prioritize retrieving from the vector database; if the answer is not found there, then search the web.\<newline>'')\<close>

definition TONE_STYLE_PROMPT :: "jsstring" where
  \<open>TONE_STYLE_PROMPT = trim (
     js ''\<newline>'' @
     js ''- Maintain a friendly, approachable, and helpful tone at all times.\<newline>'' @
     js ''- If a student is struggling, break down concepts, employ simple language, and use metaphors when they help clarify complex ideas.\<newline>'')\<close>

definition GUARDRAILS_PROMPT :: "jsstring" where
  \<open>GUARDRAILS_PROMPT = trim (
     js ''\<newline>'' @
     js ''- Strictly refuse and end engagement if a request involves dangerous, illegal, shady, or inappropriate activities.\<newline>'')\<close>

definition CITATIONS_PROMPT :: "jsstring" where
  \<open>CITATIONS_PROMPT = trim (
     js ''\<newline>'' @
     js ''- Always cite your sources using inline markdown, e.g., [Source #](https://example.com).\<newline>'' @
     js ''- Do not ever write [Source #] without providing the URL as a markdown link.\<newline>'')\<close>

definition COURSE_CONTEXT_PROMPT :: "jsstring" where
  \<open>COURSE_CONTEXT_PROMPT = trim (
     js ''\<newline>'' @
     js ''- Most basic questions about the course can be answered by reading the syllabus.\<newline>'')\<close>

definition NUTRIBUDDY_GUIDANCE :: "jsstring" where
  \<open>NUTRIBUDDY_GUIDANCE = trim (
     js ''\<newline>'' @
     js ''You are NutriBuddy '' @
     [0x2014] @
     js '' a friendly nutrition & meal-planning assistant with these core responsibilities:\<newline>'' @
     js '' - Log food items and estimate calories and macros when asked.\<newline>'' @
     js '' - Keep track of the user's daily kcal progress vs their goal.\<newline>'' @
     js '' - Suggest recipes and meals based on ingredients provided and dietary preferences.\<newline>'' @
     js '' - Ask focused clarifying questions when key details are missing (e.g., portion size, brand, or preparation method).\<newline>'' @
     js '' - When asked to output structured data (the app will set requireJSONResponse=true), respond with ONLY valid JSON that follows the schema described below.\<newline>'' @
     js ''\<newline>'' @
     js ''JSON schema (the assistant must follow when app requests JSON):\<newline>'' @
     js ''{\<newline>'' @
     js ''  "intent": "<string: one of log_food | suggest_meal | get_snapshot | set_goal | greet | farewell | ask_clarifying | info | generic>",\<newline>'' @
     js ''  "fulfillment_text": "<human-friendly reply (string)>",\<newline>'' @
     js ''  "data": { /* intent-specific payload: see examples below */ },\<newline>'' @
     js ''  "follow_up": {\<newline>'' @
     js ''    "should_ask": boolean,\<newline>'' @
     js ''    "questions": [ "<question 1>", "<question 2>" ]\<newline>'' @
     js ''  }\<newline>'' @
     js ''}\<newline>'' @
     js ''\<newline>'' @
     js ''Example payloads:\<newline>'' @
     js '' - log_food: data = { items: [{name, quantity, kcal}], added_kcal, new_total_kcal, goal_kcal, progress_percent }\<newline>'' @
     js '' - suggest_meal: data = { suggestions: [{title, ingredients, est_kcal, short_prep}], ... }\<newline>'' @
     js '' - get_snapshot: data = { today_kcal_consumed, remaining_kcal, goal_kcal, top_items }\<newline>'' @
     js '' - set_goal: data = { new_goal_kcal }\<newline>'' @
     js ''\<newline>'' @
     js ''Label estimates clearly (e.g., "'' @
     [0x2248] @
     js ''220 kcal") and avoid definitive medical claims.\<newline>'' @
     js ''If the user requests medical or therapeutic diet advice, refuse to provide specialized medical guidance and recommend a registered dietitian or doctor.\<newline>'')\<close>

definition SYSTEM_PROMPT :: "config \<Rightarrow> jsstring" where
  \<open>SYSTEM_PROMPT cfg = trim (
     js ''\<newline>'' @
     IDENTITY_PROMPT cfg @
     js ''\<newline>'' @
     js ''\<newline>'' @
     js ''<tool_calling>\<newline>'' @
     TOOL_CALLING_PROMPT @
     js ''\<newline>'' @
     js ''</tool_calling>\<newline>'' @
     js ''\<newline>'' @
     js ''<tone_style>\<newline>'' @
     TONE_STYLE_PROMPT @
     js ''\<newline>'' @
     js ''</tone_style>\<newline>'' @
     js ''\<newline>'' @
     js ''<guardrails>\<newline>'' @
     GUARDRAILS_PROMPT @
     js ''\<newline>'' @
     js ''</guardrails>\<newline>'' @
     js ''\<newline>'' @
     js ''<citations>\<newline>'' @
     CITATIONS_PROMPT @
     js ''\<newline>'' @
     js ''</citations>\<newline>'' @
     js ''\<newline>'' @
     js ''<course_context>\<newline>'' @
     COURSE_CONTEXT_PROMPT @
     js ''\<newline>'' @
     js ''</course_context>\<newline>'' @
     js ''\<newline>'' @
     js ''<nutribuddy>\<newline>'' @
     NUTRIBUDDY_GUIDANCE @
     js ''\<newline>'' @
     js ''</nutribuddy>\<newline>'' @
     js ''\<newline>'' @
     js ''<date_time>\<newline>'' @
     DATE_AND_TIME cfg @
     js ''\<newline>'' @
     js ''</date_time>\<newline>'')\<close>


subsection \<open>Few-shot examples\<close>

definition fewShotExamples :: "message list" where
  \<open>fewShotExamples =
    [ \<lparr>role = User,
       content = js ''Hi, my daily calorie goal is 2000 kcal. I had 2 boiled eggs and one slice whole wheat toast this morning. Please log that.''\<rparr>,
      \<lparr>role = Assistant,
       content = JSON_stringify
         [ (js ''intent'', JString (js ''log_food'')),
           (js ''fulfillment_text'',
              JString (js ''Logged 2 boiled eggs ('' @ [0x2248] @ js ''156 kcal) and 1 slice whole-wheat toast ('' @ [0x2248] @ js ''70 kcal). Added '' @ [0x2248] @ js ''226 kcal to today.'')),
           (js ''data'', JObject
              [ (js ''items'', JArray
                   [ JObject [ (js ''name'', JString (js ''Boiled egg'')),
                               (js ''quantity'', JString (js ''2'')),
                               (js ''kcal'', JNumber (js ''156'')) ],
                     JObject [ (js ''name'', JString (js ''Whole wheat toast'')),
                               (js ''quantity'', JString (js ''1 slice'')),
                               (js ''kcal'', JNumber (js ''70'')) ] ]),
                (js ''added_kcal'', JNumber (js ''226'')),
                (js ''new_total_kcal'', JNumber (js ''226'')),
                (js ''goal_kcal'', JNumber (js ''2000'')),
                (js ''progress_percent'', JNumber (js ''11.3'')) ]),
           (js ''follow_up'', JObject
              [ (js ''should_ask'', JBool False),
                (js ''questions'', JArray []) ]) ]\<rparr>,
      \<lparr>role = User,
       content = js ''I have chickpeas, tomatoes, spinach, and oats. Vegetarian '' @ [0x2014] @ js '' want lunch under 600 kcal. Suggestions?''\<rparr>,
      \<lparr>role = Assistant,
       content = JSON_stringify
         [ (js ''intent'', JString (js ''suggest_meal'')),
           (js ''fulfillment_text'',
              JString (js ''Here are 3 vegetarian lunch ideas under ~600 kcal using those ingredients. Which would you like the recipe for?'')),
           (js ''data'', JObject
              [ (js ''suggestions'', JArray
                   [ JObject
                       [ (js ''title'', JString (js ''Chickpea & Spinach Curry with Brown Rice'')),
                         (js ''ingredients'', JArray
                            [ JString (js ''chickpeas''), JString (js ''spinach''),
                              JString (js ''tomato''), JString (js ''onion''),
                              JString (js ''spices''), JString (js ''1/2 cup brown rice'') ]),
                         (js ''est_kcal'', JNumber (js ''520'')),
                         (js ''short_prep'',
                            JString (js ''Saut'' @ [0x00E9] @ js '' onion, add tomatoes & spices, add chickpeas & spinach, simmer. Serve with cooked brown rice.'')) ],
                     JObject
                       [ (js ''title'', JString (js ''Savory Oat & Chickpea Patties with Tomato Chutney'')),
                         (js ''ingredients'', JArray
                            [ JString (js ''oats''), JString (js ''chickpeas''),
                              JString (js ''spinach''), JString (js ''tomato''),
                              JString (js ''garlic'') ]),
                         (js ''est_kcal'', JNumber (js ''470'')) ] ]) ]),
           (js ''follow_up'', JObject
              [ (js ''should_ask'', JBool True),
                (js ''questions'', JArray [ JString (js ''Which recipe would you like?'') ]) ]) ]\<rparr>,
      \<lparr>role = User,
       content = js ''I had a bowl of cereal this morning.''\<rparr>,
      \<lparr>role = Assistant,
       content = js ''Could you tell me which cereal (brand) and approximate portion (cups or grams)? If unknown, tell me bowl size (small/medium/large).''\<rparr> ]\<close>

subsection \<open>\<^verbatim>\<open>buildMessages\<close>\<close>

text \<open>
  The conditional \<^verbatim>\<open>userProfile && Object.keys(userProfile).length ? ... : ...\<close>: an object
  is truthy, a length is truthy when it is not zero.
\<close>

definition profileBlock :: "jsobject option \<Rightarrow> jsstring" where
  "profileBlock userProfile' =
     (case userProfile' of
        Some p \<Rightarrow>
          if length (Object_keys p) \<noteq> 0
          then js ''User profile: '' @ JSON_stringify p @ js ''.''
          else js ''User profile: Not provided.''
      | None \<Rightarrow> js ''User profile: Not provided.'')"

definition sessionBlock :: "jsobject option \<Rightarrow> jsstring" where
  "sessionBlock sessionState' =
     (case sessionState' of
        Some s \<Rightarrow>
          if length (Object_keys s) \<noteq> 0
          then js ''Session state: '' @ JSON_stringify s @ js ''.''
          else js ''Session state: Not provided.''
      | None \<Rightarrow> js ''Session state: Not provided.'')"

definition jsonInstruction :: "bool \<Rightarrow> jsstring \<Rightarrow> jsstring" where
  \<open>jsonInstruction requireJSONResponse' language' =
     (if requireJSONResponse'
      then js ''\<newline>\<newline>IMPORTANT: Respond with ONLY valid JSON using the schema in the system prompt. Do NOT include any extra explanatory text.''
      else js ''\<newline>\<newline>You may respond in natural '' @ language' @
           js '' text. If helpful, include a short JSON payload labeled "assistant_payload".'')\<close>

text \<open>
  The destructuring defaults apply to an omitted property; the loop pushes a copy of every
  few-shot example; the live user message comes last.
\<close>

definition buildMessages :: "config \<Rightarrow> BuildMessagesOptions \<Rightarrow> message list" where
  "buildMessages cfg opts =
     (let userName' = (case userName opts of None \<Rightarrow> js ''User'' | Some v \<Rightarrow> v);
          requireJSONResponse' = (case requireJSONResponse opts of None \<Rightarrow> True | Some b \<Rightarrow> b);
          language' = (case language opts of None \<Rightarrow> js ''English'' | Some v \<Rightarrow> v);
          messages =
            [ \<lparr>role = System, content = SYSTEM_PROMPT cfg\<rparr>,
              \<lparr>role = System,
               content =
                 js ''Context for this session:\<newline>'' @
                 js ''User display name: '' @ userName' @ js ''.\<newline>'' @
                 profileBlock (userProfile opts) @
                 js ''\<newline>'' @
                 sessionBlock (sessionState opts) @
                 js ''\<newline>Assistant response language: '' @ language' @ js ''.'' @
                 jsonInstruction requireJSONResponse' language'\<rparr> ];
          messages = foldl (\<lambda>ms ex. ms @ [\<lparr>role = role ex, content = content ex\<rparr>])
                       messages fewShotExamples;
          messages = messages @ [\<lparr>role = User, content = userMessage opts\<rparr>]
      in messages)"

section \<open>\<^verbatim>\<open>JSON.parse\<close>\<close>

text \<open>
  A model of the built-in \<^verbatim>\<open>JSON.parse\<close>, used to run \<^verbatim>\<open>parseAssistantJson\<close> on concrete
  texts: a lexer for the JSON tokens, then a stack machine that reads the tokens one by one.
  A text that is not JSON makes \<^verbatim>\<open>JSON.parse\<close> throw a \<^verbatim>\<open>SyntaxError\<close>.
\<close>

datatype js_error = SyntaxError | TypeError

datatype token =
    TLBrace | TRBrace | TLBracket | TRBracket | TColon | TComma
  | TString jsstring | TNumber jsstring | TTrue | TFalse | TNull

definition isJSONWhiteSpace :: "jschar \<Rightarrow> bool" where
  "isJSONWhiteSpace c \<longleftrightarrow> c = 0x09 \<or> c = 0x0A \<or> c = 0x0D \<or> c = 0x20"

definition isDigit :: "jschar \<Rightarrow> bool" where
  "isDigit c \<longleftrightarrow> 0x30 \<le> c \<and> c \<le> 0x39"

definition hexValue :: "jschar \<Rightarrow> jschar option" where
  "hexValue c =
     (if 0x30 \<le> c \<and> c \<le> 0x39 then Some (c - 0x30)
      else if 0x41 \<le> c \<and> c \<le> 0x46 then Some (c - 0x37)
      else if 0x61 \<le> c \<and> c \<le> 0x66 then Some (c - 0x57)
      else None)"

definition hex4 :: "jschar \<Rightarrow> jschar \<Rightarrow> jschar \<Rightarrow> jschar \<Rightarrow> jschar option" where
  "hex4 a b c d =
     (case (hexValue a, hexValue b, hexValue c, hexValue d) of
        (Some w, Some x, Some y, Some z) \<Rightarrow> Some (((w * 16 + x) * 16 + y) * 16 + z)
      | _ \<Rightarrow> None)"

definition unescape :: "jschar \<Rightarrow> jschar option" where
  "unescape e =
     (if e = 0x22 \<or> e = 0x5C \<or> e = 0x2F then Some e
      else if e = 0x62 then Some 0x08
      else if e = 0x66 then Some 0x0C
      else if e = 0x6E then Some 0x0A
      else if e = 0x72 then Some 0x0D
      else if e = 0x74 then Some 0x09
      else None)"

fun lexString :: "jsstring \<Rightarrow> (jsstring \<times> jsstring) option" where
  "lexString [] = None"
| "lexString (c # cs) =
     (if c = 0x22 then Some ([], cs)
      else if c = 0x5C then
        (case cs of
           [] \<Rightarrow> None
         | e # es \<Rightarrow>
             if e = 0x75 then
               (case es of
                  h1 # h2 # h3 # h4 # rest \<Rightarrow>
                    (case hex4 h1 h2 h3 h4 of
                       None \<Rightarrow> None
                     | Some u \<Rightarrow> map_option (\<lambda>(s, r). (u # s, r)) (lexString rest))
                | _ \<Rightarrow> None)
             else
               (case unescape e of
                  None \<Rightarrow> None
                | Some u \<Rightarrow> map_option (\<lambda>(s, r). (u # s, r)) (lexString es)))
      else if c < 0x20 then None
      else map_option (\<lambda>(s, r). (c # s, r)) (lexString cs))"

definition lexInt :: "jsstring \<Rightarrow> (jsstring \<times> jsstring) option" where
  "lexInt cs =
     (case cs of
        [] \<Rightarrow> None
      | d # ds \<Rightarrow>
          if d = 0x30 then Some ([d], ds)
          else if isDigit d then Some (d # takeWhile isDigit ds, dropWhile isDigit ds)
          else None)"

definition lexDigits :: "jsstring \<Rightarrow> (jsstring \<times> jsstring) option" where
  "lexDigits cs =
     (if takeWhile isDigit cs = [] then None
      else Some (takeWhile isDigit cs, dropWhile isDigit cs))"

definition lexFrac :: "jsstring \<Rightarrow> (jsstring \<times> jsstring) option" where
  "lexFrac cs =
     (case cs of
        [] \<Rightarrow> Some ([], cs)
      | d # ds \<Rightarrow>
          if d = 0x2E then map_option (\<lambda>(n, r). (d # n, r)) (lexDigits ds)
          else Some ([], cs))"

definition lexSign :: "jsstring \<Rightarrow> jsstring \<times> jsstring" where
  "lexSign cs =
     (case cs of
        [] \<Rightarrow> ([], cs)
      | s # r \<Rightarrow> if s = 0x2B \<or> s = 0x2D then ([s], r) else ([], cs))"

definition lexExp :: "jsstring \<Rightarrow> (jsstring \<times> jsstring) option" where
  "lexExp cs =
     (case cs of
        [] \<Rightarrow> Some ([], cs)
      | e # r \<Rightarrow>
          if e = 0x65 \<or> e = 0x45 then
            (case lexSign r of
               (sg, r') \<Rightarrow> map_option (\<lambda>(n, r''). (e # sg @ n, r'')) (lexDigits r'))
          else Some ([], cs))"

definition lexNumber :: "jsstring \<Rightarrow> (jsstring \<times> jsstring) option" where
  "lexNumber cs =
     (case (if cs \<noteq> [] \<and> hd cs = 0x2D then ([0x2D], tl cs) else ([], cs)) of
        (neg, r0) \<Rightarrow>
          (case lexInt r0 of
             None \<Rightarrow> None
           | Some (i, r1) \<Rightarrow>
               (case lexFrac r1 of
                  None \<Rightarrow> None
                | Some (f, r2) \<Rightarrow>
                    (case lexExp r2 of
                       None \<Rightarrow> None
                     | Some (e, r3) \<Rightarrow> Some (neg @ i @ f @ e, r3)))))"

text \<open>Each scanner consumes input, so the lexer terminates.\<close>

lemma lexString_shorter: "lexString cs = Some (s, r) \<Longrightarrow> length r < length cs"
proof (induction cs arbitrary: s r rule: lexString.induct)
  case 1
  then show ?case by simp
next
  case (2 c cs)
  then show ?case
    by (fastforce split: if_splits list.splits option.splits)
qed

lemma lexDigits_shorter: "lexDigits cs = Some (n, r) \<Longrightarrow> length r \<le> length cs"
  by (auto simp: lexDigits_def length_dropWhile_le split: if_splits)

lemma lexInt_shorter: "lexInt cs = Some (n, r) \<Longrightarrow> length r < length cs"
  by (auto simp: lexInt_def less_Suc_eq_le length_dropWhile_le split: list.splits if_splits)

lemma lexFrac_shorter: "lexFrac cs = Some (n, r) \<Longrightarrow> length r \<le> length cs"
  by (auto simp: lexFrac_def split: list.splits if_splits dest!: lexDigits_shorter)

lemma lexSign_shorter: "lexSign cs = (sg, r) \<Longrightarrow> length r \<le> length cs"
  by (auto simp: lexSign_def split: list.splits if_splits)

lemma lexExp_shorter: "lexExp cs = Some (n, r) \<Longrightarrow> length r \<le> length cs"
  by (auto simp: lexExp_def split: list.splits if_splits prod.splits
      dest!: lexDigits_shorter lexSign_shorter)

lemma lexNumber_shorter: "lexNumber cs = Some (n, r) \<Longrightarrow> length r < length cs"
  by (cases cs)
     (auto simp: lexNumber_def split: if_splits option.splits prod.splits
       dest!: lexInt_shorter lexFrac_shorter lexExp_shorter)

function lex :: "jsstring \<Rightarrow> token list option" where
  "lex [] = Some []"
| "lex (c # cs) =
     (if isJSONWhiteSpace c then lex cs
      else if c = 0x7B then map_option ((#) TLBrace) (lex cs)
      else if c = 0x7D then map_option ((#) TRBrace) (lex cs)
      else if c = 0x5B then map_option ((#) TLBracket) (lex cs)
      else if c = 0x5D then map_option ((#) TRBracket) (lex cs)
      else if c = 0x3A then map_option ((#) TColon) (lex cs)
      else if c = 0x2C then map_option ((#) TComma) (lex cs)
      else if c = 0x22 then
        (case lexString cs of
           None \<Rightarrow> None
         | Some (s, rest) \<Rightarrow> map_option ((#) (TString s)) (lex rest))
      else if c = 0x2D \<or> isDigit c then
        (case lexNumber (c # cs) of
           None \<Rightarrow> None
         | Some (n, rest) \<Rightarrow> map_option ((#) (TNumber n)) (lex rest))
      else if prefix (js ''true'') (c # cs) then map_option ((#) TTrue) (lex (drop 3 cs))
      else if prefix (js ''false'') (c # cs) then map_option ((#) TFalse) (lex (drop 4 cs))
      else if prefix (js ''null'') (c # cs) then map_option ((#) TNull) (lex (drop 3 cs))
      else None)"
  by pat_completeness auto
termination
  by (relation "measure length")
     (auto dest: lexString_shorter lexNumber_shorter)

text \<open>
  The stack holds the arrays and objects that are still open. A repeated key keeps its first
  position and takes the last value.
\<close>

datatype frame =
    FArray "jsval list"
  | FObject "(jsstring \<times> jsval) list" "jsstring option"

datatype mode = MValue | MFirst | MKey | MColon | MAfter | MDone jsval

fun pushValue :: "jsval \<Rightarrow> frame list \<Rightarrow> (mode \<times> frame list) option" where
  "pushValue v [] = Some (MDone v, [])"
| "pushValue v (FArray es # st) = Some (MAfter, FArray (es @ [v]) # st)"
| "pushValue v (FObject ms (Some k) # st) = Some (MAfter, FObject (AList.update k v ms) None # st)"
| "pushValue v (FObject ms None # st) = None"

fun startValue :: "token \<Rightarrow> frame list \<Rightarrow> (mode \<times> frame list) option" where
  "startValue TLBracket st = Some (MFirst, FArray [] # st)"
| "startValue TLBrace st = Some (MFirst, FObject [] None # st)"
| "startValue (TString s) st = pushValue (JString s) st"
| "startValue (TNumber n) st = pushValue (JNumber n) st"
| "startValue TTrue st = pushValue (JBool True) st"
| "startValue TFalse st = pushValue (JBool False) st"
| "startValue TNull st = pushValue JNull st"
| "startValue _ st = None"

fun step :: "mode \<Rightarrow> frame list \<Rightarrow> token \<Rightarrow> (mode \<times> frame list) option" where
  "step MValue st t = startValue t st"
| "step MFirst (FArray es # st) t =
     (if t = TRBracket then pushValue (JArray es) st else startValue t (FArray es # st))"
| "step MFirst (FObject ms k # st) t =
     (case t of
        TRBrace \<Rightarrow> pushValue (JObject ms) st
      | TString key \<Rightarrow> Some (MColon, FObject ms (Some key) # st)
      | _ \<Rightarrow> None)"
| "step MKey (FObject ms k # st) t =
     (case t of
        TString key \<Rightarrow> Some (MColon, FObject ms (Some key) # st)
      | _ \<Rightarrow> None)"
| "step MColon st t = (if t = TColon then Some (MValue, st) else None)"
| "step MAfter (FArray es # st) t =
     (case t of
        TComma \<Rightarrow> Some (MValue, FArray es # st)
      | TRBracket \<Rightarrow> pushValue (JArray es) st
      | _ \<Rightarrow> None)"
| "step MAfter (FObject ms k # st) t =
     (case t of
        TComma \<Rightarrow> Some (MKey, FObject ms k # st)
      | TRBrace \<Rightarrow> pushValue (JObject ms) st
      | _ \<Rightarrow> None)"
| "step _ _ t = None"

fun run :: "mode \<Rightarrow> frame list \<Rightarrow> token list \<Rightarrow> jsval option" where
  "run m st [] = (case m of MDone v \<Rightarrow> Some v | _ \<Rightarrow> None)"
| "run m st (t # ts) =
     (case step m st t of
        None \<Rightarrow> None
      | Some (m', st') \<Rightarrow> run m' st' ts)"

definition JSON_parse :: "jsstring \<Rightarrow> js_error + jsval" where
  "JSON_parse text =
     (case lex text of
        None \<Rightarrow> Inl SyntaxError
      | Some ts \<Rightarrow>
          (case run MValue [] ts of
             None \<Rightarrow> Inl SyntaxError
           | Some v \<Rightarrow> Inr v))"

section \<open>\<^verbatim>\<open>parseAssistantJson\<close>\<close>

text \<open>
  The body of the \<^verbatim>\<open>try\<close> block: it returns a value (\<open>Inr (Some v)\<close>), runs to its end
  (\<open>Inr None\<close>) or throws what \<^verbatim>\<open>JSON.parse\<close> throws (\<open>Inl err\<close>). \<^verbatim>\<open>JSON.parse\<close> is the
  parameter \<open>parse\<close>.
\<close>

definition parseAssistantJson_try ::
  "(jsstring \<Rightarrow> js_error + jsval) \<Rightarrow> jsstring \<Rightarrow> js_error + jsval option" where
  "parseAssistantJson_try parse trimmed =
     (if startsWith trimmed (js ''{'') \<or> startsWith trimmed (js ''['') then
        (case parse trimmed of Inl err \<Rightarrow> Inl err | Inr v \<Rightarrow> Inr (Some v))
      else
        (let first' = indexOf trimmed (js ''{'');
             last' = lastIndexOf trimmed (js ''}'')
         in if first' \<noteq> -1 \<and> last' \<noteq> -1 \<and> last' > first' then
              (let sub = substring trimmed first' (last' + 1)
               in case parse sub of Inl err \<Rightarrow> Inl err | Inr v \<Rightarrow> Inr (Some v))
            else Inr None))"

text \<open>
  \<^verbatim>\<open>if (!text) return null\<close> holds for \<^verbatim>\<open>null\<close>, \<^verbatim>\<open>undefined\<close> (\<open>None\<close>) and the empty
  string. The \<^verbatim>\<open>catch\<close> clause ignores the error, and the function ends with
  \<^verbatim>\<open>return null\<close>. The result \<open>Inl err\<close> would be an exception that reaches the caller.
\<close>

definition parseAssistantJson ::
  "(jsstring \<Rightarrow> js_error + jsval) \<Rightarrow> jsstring option \<Rightarrow> js_error + jsval" where
  "parseAssistantJson parse text =
     (case text of
        None \<Rightarrow> Inr JNull
      | Some t \<Rightarrow>
          if t = [] then Inr JNull
          else
            (let trimmed = trim t
             in case parseAssistantJson_try parse trimmed of
                  Inr (Some v) \<Rightarrow> Inr v
                | Inr None \<Rightarrow> Inr JNull
                | Inl err \<Rightarrow> Inr JNull))"

section \<open>Concrete inputs\<close>

text \<open>Inputs on which the functions are run below. The configuration only fills the first message.\<close>

definition example_config :: config where
  "example_config =
     \<lparr>DATE_AND_TIME = js ''Monday, 2 November 2026'', OWNER_NAME = js ''Owner'',
      AI_NAME = js ''NutriBuddy''\<rparr>"

definition opts_empty_objects :: BuildMessagesOptions where
  "opts_empty_objects =
     \<lparr>userName = None, userProfile = Some [], sessionState = Some [],
      userMessage = js ''I ate 2 eggs'', requireJSONResponse = None, language = None\<rparr>"


definition opts_profile_only :: BuildMessagesOptions where
  "opts_profile_only =
     \<lparr>userName = Some (js ''Riya''),
      userProfile = Some [(js ''name'', JString (js ''Riya'')), (js ''age'', JNumber (js ''28''))],
      sessionState = None,
      userMessage = js ''I ate 2 eggs'', requireJSONResponse = Some True, language = None\<rparr>"

definition opts_session_only :: BuildMessagesOptions where
  "opts_session_only =
     \<lparr>userName = None, userProfile = None,
      sessionState = Some [(js ''today_kcal_consumed'', JNumber (js ''560''))],
      userMessage = js ''   '', requireJSONResponse = Some False, language = Some (js ''Hindi'')\<rparr>"

section \<open>Properties of \<^verbatim>\<open>buildMessages\<close>\<close>

lemma push_all_append:
  "foldl (\<lambda>ms ex. ms @ [\<lparr>role = role ex, content = content ex\<rparr>]) ms exs = ms @ exs"
  by (induction exs arbitrary: ms) simp_all



lemma second_content:
  "content (buildMessages cfg opts ! 1) =
     js ''Context for this session:\<newline>'' @
     js ''User display name: '' @
     (case userName opts of None \<Rightarrow> js ''User'' | Some v \<Rightarrow> v) @ js ''.\<newline>'' @
     profileBlock (userProfile opts) @ js ''\<newline>'' @ sessionBlock (sessionState opts) @
     js ''\<newline>Assistant response language: '' @
     (case language opts of None \<Rightarrow> js ''English'' | Some v \<Rightarrow> v) @ js ''.'' @
     jsonInstruction (case requireJSONResponse opts of None \<Rightarrow> True | Some b \<Rightarrow> b)
       (case language opts of None \<Rightarrow> js ''English'' | Some v \<Rightarrow> v)"
  by (simp add: buildMessages_def Let_def push_all_append)



lemma js_append: "js (a @ b) = js a @ js b" by (simp add: js_def)

lemma profileBlock_in_context:
  "sublist (profileBlock (userProfile opts)) (content (buildMessages cfg opts ! 1))"
proof -
  obtain ps ss where "content (buildMessages cfg opts ! 1) = ps @ profileBlock (userProfile opts) @ ss"
    using second_content [of cfg opts] by (metis append.assoc)
  then show ?thesis by simp
qed

lemma sessionBlock_in_context:
  "sublist (sessionBlock (sessionState opts)) (content (buildMessages cfg opts ! 1))"
proof -
  obtain ps ss where "content (buildMessages cfg opts ! 1) = ps @ sessionBlock (sessionState opts) @ ss"
    using second_content [of cfg opts] by (metis append.assoc)
  then show ?thesis by simp
qed

lemma jsonInstruction_trailing:
  "suffix (jsonInstruction (case requireJSONResponse opts of None \<Rightarrow> True | Some b \<Rightarrow> b)
       (case language opts of None \<Rightarrow> js ''English'' | Some v \<Rightarrow> v))
     (content (buildMessages cfg opts ! 1))"
  by (subst second_content) (simp only: suffix_appendI suffix_order.refl)





text \<open>
  Claim C9. An omitted \<^verbatim>\<open>requireJSONResponse\<close> behaves as \<^verbatim>\<open>true\<close>, so the second system
  message ends with the strict JSON-only instruction; an omitted \<^verbatim>\<open>language\<close> behaves as
  \<^verbatim>\<open>'English'\<close> and an omitted \<^verbatim>\<open>userName\<close> as \<^verbatim>\<open>'User'\<close>: the whole output is the same
  as with the default written out.
\<close>
theorem buildMessages_defaults:
  \<open>buildMessages cfg (opts\<lparr>requireJSONResponse := None\<rparr>) =
     buildMessages cfg (opts\<lparr>requireJSONResponse := Some True\<rparr>)
   \<and> suffix (js ''\<newline>\<newline>IMPORTANT: Respond with ONLY valid JSON using the schema in the system prompt. Do NOT include any extra explanatory text.'')
        (content (buildMessages cfg (opts\<lparr>requireJSONResponse := None\<rparr>) ! 1))
   \<and> buildMessages cfg (opts\<lparr>language := None\<rparr>) =
       buildMessages cfg (opts\<lparr>language := Some (js ''English'')\<rparr>)
   \<and> buildMessages cfg (opts\<lparr>userName := None\<rparr>) =
       buildMessages cfg (opts\<lparr>userName := Some (js ''User'')\<rparr>)\<close>
proof -
  have "suffix (jsonInstruction True (case language opts of None \<Rightarrow> js ''English'' | Some v \<Rightarrow> v))
     (content (buildMessages cfg (opts\<lparr>requireJSONResponse := None\<rparr>) ! 1))"
    using jsonInstruction_trailing [of "opts\<lparr>requireJSONResponse := None\<rparr>" cfg] by simp
  then show ?thesis
    by (simp add: buildMessages_def jsonInstruction_def)
qed

text \<open>
  Claim C10. A \<^verbatim>\<open>userProfile\<close> (or \<^verbatim>\<open>sessionState\<close>) that is present but an object
  without keys gets the \<^verbatim>\<open>Not provided\<close> placeholder: the output is the same as when the
  field is omitted.
\<close>
theorem empty_object_as_absent:
  "buildMessages cfg (opts\<lparr>userProfile := Some []\<rparr>) = buildMessages cfg (opts\<lparr>userProfile := None\<rparr>)
   \<and> buildMessages cfg (opts\<lparr>sessionState := Some []\<rparr>) = buildMessages cfg (opts\<lparr>sessionState := None\<rparr>)
   \<and> sublist (js ''User profile: Not provided.'') (content (buildMessages cfg (opts\<lparr>userProfile := Some []\<rparr>) ! 1))
   \<and> sublist (js ''Session state: Not provided.'') (content (buildMessages cfg (opts\<lparr>sessionState := Some []\<rparr>) ! 1))"
proof -
  have p: "profileBlock (Some []) = js ''User profile: Not provided.''"
    by (simp add: profileBlock_def Object_keys_def)
  have s: "sessionBlock (Some []) = js ''Session state: Not provided.''"
    by (simp add: sessionBlock_def Object_keys_def)
  have "sublist (js ''User profile: Not provided.'') (content (buildMessages cfg (opts\<lparr>userProfile := Some []\<rparr>) ! 1))"
    using profileBlock_in_context [of "opts\<lparr>userProfile := Some []\<rparr>" cfg] by (simp add: p)
  moreover have "sublist (js ''Session state: Not provided.'') (content (buildMessages cfg (opts\<lparr>sessionState := Some []\<rparr>) ! 1))"
    using sessionBlock_in_context [of "opts\<lparr>sessionState := Some []\<rparr>" cfg] by (simp add: s)
  moreover have "buildMessages cfg (opts\<lparr>userProfile := Some []\<rparr>) = buildMessages cfg (opts\<lparr>userProfile := None\<rparr>)"
    by (simp add: buildMessages_def profileBlock_def Object_keys_def)
  moreover have "buildMessages cfg (opts\<lparr>sessionState := Some []\<rparr>) = buildMessages cfg (opts\<lparr>sessionState := None\<rparr>)"
    by (simp add: buildMessages_def sessionBlock_def Object_keys_def)
  ultimately show ?thesis by blast
qed





text \<open>
  Claim C7, as amended. When \<^verbatim>\<open>userProfile\<close> (respectively \<^verbatim>\<open>sessionState\<close>) is absent
  the second system message contains the placeholder \<^verbatim>\<open>User profile: Not provided.\<close>
  (respectively \<^verbatim>\<open>Session state: Not provided.\<close>); when the field is present and has at
  least one key, the message contains its \<^verbatim>\<open>JSON.stringify\<close> serialization as a context
  block; the block is never the empty string.
\<close>
theorem context_blocks:
  "(userProfile opts = None \<longrightarrow>
      sublist (js ''User profile: Not provided.'') (content (buildMessages cfg opts ! 1)))
   \<and> (sessionState opts = None \<longrightarrow>
      sublist (js ''Session state: Not provided.'') (content (buildMessages cfg opts ! 1)))
   \<and> (\<forall>p. userProfile opts = Some p \<and> Object_keys p \<noteq> [] \<longrightarrow>
      sublist (js ''User profile: '' @ JSON_stringify p @ js ''.'')
        (content (buildMessages cfg opts ! 1)))
   \<and> (\<forall>s. sessionState opts = Some s \<and> Object_keys s \<noteq> [] \<longrightarrow>
      sublist (js ''Session state: '' @ JSON_stringify s @ js ''.'')
        (content (buildMessages cfg opts ! 1)))
   \<and> profileBlock (userProfile opts) \<noteq> []
   \<and> sessionBlock (sessionState opts) \<noteq> []"
proof -
  have ne: "js ''User profile: '' \<noteq> []" "js ''Session state: '' \<noteq> []"
    "js ''User profile: Not provided.'' \<noteq> []" "js ''Session state: Not provided.'' \<noteq> []"
    by (simp_all add: js_def)
  have "profileBlock (userProfile opts) \<noteq> []"
    using ne by (simp add: profileBlock_def split: option.splits)
  moreover have "sessionBlock (sessionState opts) \<noteq> []"
    using ne by (simp add: sessionBlock_def split: option.splits)
  moreover have "userProfile opts = None \<longrightarrow>
      sublist (js ''User profile: Not provided.'') (content (buildMessages cfg opts ! 1))"
    using profileBlock_in_context [of opts cfg] by (auto simp: profileBlock_def)
  moreover have "sessionState opts = None \<longrightarrow>
      sublist (js ''Session state: Not provided.'') (content (buildMessages cfg opts ! 1))"
    using sessionBlock_in_context [of opts cfg] by (auto simp: sessionBlock_def)
  moreover have "\<forall>p. userProfile opts = Some p \<and> Object_keys p \<noteq> [] \<longrightarrow>
      sublist (js ''User profile: '' @ JSON_stringify p @ js ''.'')
        (content (buildMessages cfg opts ! 1))"
    using profileBlock_in_context [of opts cfg] by (auto simp: profileBlock_def)
  moreover have "\<forall>s. sessionState opts = Some s \<and> Object_keys s \<noteq> [] \<longrightarrow>
      sublist (js ''Session state: '' @ JSON_stringify s @ js ''.'')
        (content (buildMessages cfg opts ! 1))"
    using sessionBlock_in_context [of opts cfg] by (auto simp: sessionBlock_def)
  ultimately show ?thesis by blast
qed

lemma stringify_profile_example:
  \<open>JSON_stringify [(js ''name'', JString (js ''Riya'')), (js ''age'', JNumber (js ''28''))] =
     js ''{"name":"Riya","age":28}''\<close>
  by (simp add: JSON_stringify_def QuoteJSONString_def QuoteUnit_def js_def
      isLeadingSurrogate_def isTrailingSurrogate_def)

theorem context_blocks_witness:
  \<open>sublist (js ''User profile: {"name":"Riya","age":28}.'')
     (content (buildMessages example_config opts_profile_only ! 1))
   \<and> sublist (js ''Session state: Not provided.'')
     (content (buildMessages example_config opts_profile_only ! 1))
   \<and> sublist (js ''User profile: Not provided.'')
     (content (buildMessages example_config opts_session_only ! 1))
   \<and> sublist (js ''Session state: {"today_kcal_consumed":560}.'')
     (content (buildMessages example_config opts_session_only ! 1))\<close>
proof -
  have s: \<open>JSON_stringify [(js ''today_kcal_consumed'', JNumber (js ''560''))] =
     js ''{"today_kcal_consumed":560}''\<close>
    by (simp add: JSON_stringify_def QuoteJSONString_def QuoteUnit_def js_def
        isLeadingSurrogate_def isTrailingSurrogate_def)
  show ?thesis
    using context_blocks [of opts_profile_only example_config] context_blocks [of opts_session_only example_config]
    by (simp add: opts_profile_only_def opts_session_only_def Object_keys_def
        stringify_profile_example s flip: js_append)
qed

text \<open>
  Counterexample to claim C7 as stated: a \<^verbatim>\<open>userProfile\<close> that is present as \<^verbatim>\<open>{}\<close> is not
  serialized; the message holds the placeholder and nowhere \<^verbatim>\<open>User profile: {}.\<close>
\<close>

theorem empty_profile_counterexample:
  \<open>userProfile opts_empty_objects = Some []
   \<and> content (buildMessages example_config opts_empty_objects ! 1) =
       js ''Context for this session:\<newline>User display name: User.\<newline>User profile: Not provided.\<newline>Session state: Not provided.\<newline>Assistant response language: English.\<newline>\<newline>IMPORTANT: Respond with ONLY valid JSON using the schema in the system prompt. Do NOT include any extra explanatory text.''
   \<and> \<not> sublist (js ''User profile: '' @ JSON_stringify [] @ js ''.'')
         (content (buildMessages example_config opts_empty_objects ! 1))\<close>
proof -
  have c: "content (buildMessages example_config opts_empty_objects ! 1) =
       js ''Context for this session:\<newline>User display name: User.\<newline>User profile: Not provided.\<newline>Session state: Not provided.\<newline>Assistant response language: English.\<newline>\<newline>IMPORTANT: Respond with ONLY valid JSON using the schema in the system prompt. Do NOT include any extra explanatory text.''"
    by (subst second_content)
       (simp add: opts_empty_objects_def profileBlock_def sessionBlock_def
          Object_keys_def jsonInstruction_def flip: js_append)
  have n: "\<not> sublist (js ''User profile: '' @ JSON_stringify [] @ js ''.'')
         (content (buildMessages example_config opts_empty_objects ! 1))"
    unfolding c by (simp add: js_def JSON_stringify_def sublist_Cons_right)
  from c n show ?thesis by (simp add: opts_empty_objects_def)
qed





section \<open>Properties of \<^verbatim>\<open>parseAssistantJson\<close>\<close>

text \<open>The equations that evaluate the string functions and \<^verbatim>\<open>JSON.parse\<close> on a concrete text.\<close>

lemmas json_eval =
  JSON_parse_def js_def isJSONWhiteSpace_def isDigit_def lexNumber_def lexInt_def lexFrac_def
  lexExp_def lexSign_def lexDigits_def hex4_def hexValue_def unescape_def

lemmas string_eval =
  trim_def isWhiteSpace_def startsWith_def indexOf_def lastIndexOf_def substring_def

lemma js_braces: "js ''{'' = [0x7B]" "js ''}'' = [0x7D]" "js ''['' = [0x5B]"
  by (simp_all add: js_def)

lemma indexOf_from_absent: "c \<notin> set s \<Longrightarrow> indexOf_from s [c] k = -1"
  by (induction s arbitrary: k) auto

lemma indexOf_from_first:
  "c \<notin> set a \<Longrightarrow> indexOf_from (a @ c # r) [c] k = k + int (length a)"
  by (induction a arbitrary: k) auto

lemma lastIndexOf_from_absent: "c \<notin> set s \<Longrightarrow> lastIndexOf_from s [c] k found = found"
  by (induction s arbitrary: k found) auto

lemma lastIndexOf_from_last:
  "c \<notin> set b \<Longrightarrow> lastIndexOf_from (x @ c # b) [c] k found = k + int (length x)"
  by (induction x arbitrary: k found) (auto simp: lastIndexOf_from_absent)

lemma indexOf_absent: "c \<notin> set s \<Longrightarrow> indexOf s [c] = -1"
  by (simp add: indexOf_def indexOf_from_absent)

lemma indexOf_first: "c \<notin> set a \<Longrightarrow> indexOf (a @ c # r) [c] = int (length a)"
  by (simp add: indexOf_def indexOf_from_first)

lemma lastIndexOf_absent: "c \<notin> set s \<Longrightarrow> lastIndexOf s [c] = -1"
  by (simp add: lastIndexOf_def lastIndexOf_from_absent)

lemma lastIndexOf_last: "c \<notin> set b \<Longrightarrow> lastIndexOf (x @ c # b) [c] = int (length x)"
  by (simp add: lastIndexOf_def lastIndexOf_from_last)

lemma substring_middle:
  "substring (a @ mid @ b) (int (length a)) (int (length a) + int (length mid)) = mid"
proof -
  let ?s = "a @ mid @ b"
  have 1: "min (max (int (length a)) 0) (int (length ?s)) = int (length a)"
    by simp
  have 2: "min (max (int (length a) + int (length mid)) 0) (int (length ?s)) =
             int (length a) + int (length mid)"
    by simp
  show ?thesis
    unfolding substring_def Let_def 1 2 by simp
qed

lemma try_whole:
  "startsWith trimmed (js ''{'') \<or> startsWith trimmed (js ''['') \<Longrightarrow>
   parseAssistantJson_try parse trimmed =
     (case parse trimmed of Inl err \<Rightarrow> Inl err | Inr v \<Rightarrow> Inr (Some v))"
  by (simp add: parseAssistantJson_try_def)

lemma try_span:
  assumes "\<not> startsWith trimmed (js ''{'')" and "\<not> startsWith trimmed (js ''['')"
    and "trimmed = a @ js ''{'' @ m @ js ''}'' @ b" and "0x7B \<notin> set a" and "0x7D \<notin> set b"
  shows "parseAssistantJson_try parse trimmed =
     (case parse (js ''{'' @ m @ js ''}'') of Inl err \<Rightarrow> Inl err | Inr v \<Rightarrow> Inr (Some v))"
proof -
  have t: "trimmed = a @ 0x7B # (m @ 0x7D # b)"
    using assms(3) by (simp add: js_braces)
  have t': "trimmed = (a @ 0x7B # m) @ 0x7D # b"
    using assms(3) by (simp add: js_braces)
  have f: "indexOf trimmed (js ''{'') = int (length a)"
    unfolding js_braces by (subst t) (rule indexOf_first [OF assms(4)])
  have l: "lastIndexOf trimmed (js ''}'') = int (length a) + 1 + int (length m)"
    unfolding js_braces using lastIndexOf_last [OF assms(5), of "a @ 0x7B # m"] t' by simp
  have c: "indexOf trimmed (js ''{'') \<noteq> -1 \<and> lastIndexOf trimmed (js ''}'') \<noteq> -1
            \<and> lastIndexOf trimmed (js ''}'') > indexOf trimmed (js ''{'')"
    using f l by simp
  have "substring trimmed (int (length a)) (int (length a) + int (length (js ''{'' @ m @ js ''}'')))
             = js ''{'' @ m @ js ''}''"
    using substring_middle [of a "js ''{'' @ m @ js ''}''" b] assms(3) by simp
  moreover have "int (length a) + int (length (js ''{'' @ m @ js ''}''))
                   = lastIndexOf trimmed (js ''}'') + 1"
    using l by (simp add: js_braces)
  ultimately have s: "substring trimmed (indexOf trimmed (js ''{''))
      (lastIndexOf trimmed (js ''}'') + 1) = js ''{'' @ m @ js ''}''"
    using f by simp
  show ?thesis
    by (simp only: parseAssistantJson_try_def Let_def assms(1,2) c s simp_thms if_True if_False)
qed

lemma try_no_markers:
  assumes "\<not> startsWith trimmed (js ''{'')" and "\<not> startsWith trimmed (js ''['')"
    and "trimmed = a @ b" and "0x7B \<notin> set a" and "0x7D \<notin> set b"
  shows "parseAssistantJson_try parse trimmed = Inr None"
proof -
  let ?f = "indexOf trimmed (js ''{'')" and ?l = "lastIndexOf trimmed (js ''}'')"
  have "?f = -1 \<or> ?l = -1 \<or> \<not> ?l > ?f"
  proof (cases "0x7B \<in> set b")
    case False
    then have "0x7B \<notin> set trimmed" using assms(3,4) by simp
    then show ?thesis by (simp add: js_braces indexOf_absent)
  next
    case True
    then obtain b1 b2 where b: "b = b1 @ 0x7B # b2" "0x7B \<notin> set b1"
      by (meson split_list_first)
    show ?thesis
    proof (cases "0x7D \<in> set a")
      case False
      then have "0x7D \<notin> set trimmed" using assms(3,5) by simp
      then show ?thesis by (simp add: js_braces lastIndexOf_absent)
    next
      case True
      then obtain a1 a2 where a: "a = a1 @ 0x7D # a2" "0x7D \<notin> set a2"
        by (meson split_list_last)
      have "trimmed = (a @ b1) @ 0x7B # b2" using assms(3) b by simp
      moreover have "0x7B \<notin> set (a @ b1)" using assms(4) b by simp
      ultimately have f: "?f = int (length (a @ b1))"
        unfolding js_braces using indexOf_first by blast
      have "trimmed = a1 @ 0x7D # (a2 @ b)" using assms(3) a by simp
      moreover have "0x7D \<notin> set (a2 @ b)" using assms(5) a by simp
      ultimately have l: "?l = int (length a1)"
        unfolding js_braces using lastIndexOf_last by blast
      show ?thesis using f l a by simp
    qed
  qed
  then show ?thesis
    using assms(1,2) by (auto simp: parseAssistantJson_try_def Let_def)
qed

lemma parseAssistantJson_nonempty:
  "t \<noteq> [] \<Longrightarrow> parseAssistantJson parse (Some t) =
     (case parseAssistantJson_try parse (trim t) of
        Inr (Some v) \<Rightarrow> Inr v | Inr None \<Rightarrow> Inr JNull | Inl err \<Rightarrow> Inr JNull)"
  by (simp add: parseAssistantJson_def)

text \<open>
  Claim C2. For a non-empty text: (1) if the trimmed text starts with \<^verbatim>\<open>{\<close> or \<^verbatim>\<open>[\<close>, the
  whole trimmed text is parsed and the parsed value returned, a parse error giving
  \<^verbatim>\<open>null\<close>; (2) otherwise, if the trimmed text has a first \<^verbatim>\<open>{\<close> (none in \<open>a\<close>) and,
  after it, a last \<^verbatim>\<open>}\<close> (none in \<open>b\<close>), the substring from the one to the other,
  both included, is parsed in the same way; (3) if there is no \<^verbatim>\<open>{\<close>, no \<^verbatim>\<open>}\<close>, or every
  \<^verbatim>\<open>}\<close> comes before every \<^verbatim>\<open>{\<close>, the result is \<^verbatim>\<open>null\<close>. This holds for any
  behaviour of \<^verbatim>\<open>JSON.parse\<close>.
\<close>
theorem parseAssistantJson_algorithm:
  assumes "t \<noteq> []"
  shows
   "(startsWith (trim t) (js ''{'') \<or> startsWith (trim t) (js ''['') \<longrightarrow>
       parseAssistantJson parse (Some t) =
         (case parse (trim t) of Inr v \<Rightarrow> Inr v | Inl err \<Rightarrow> Inr JNull))
    \<and> (\<not> startsWith (trim t) (js ''{'') \<and> \<not> startsWith (trim t) (js ''['') \<longrightarrow>
         (\<forall>a m b. trim t = a @ js ''{'' @ m @ js ''}'' @ b \<and> 0x7B \<notin> set a \<and> 0x7D \<notin> set b \<longrightarrow>
            parseAssistantJson parse (Some t) =
              (case parse (js ''{'' @ m @ js ''}'') of Inr v \<Rightarrow> Inr v | Inl err \<Rightarrow> Inr JNull))
       \<and> (\<forall>a b. trim t = a @ b \<and> 0x7B \<notin> set a \<and> 0x7D \<notin> set b \<longrightarrow>
            parseAssistantJson parse (Some t) = Inr JNull))"
proof (intro conjI impI allI)
  assume "startsWith (trim t) (js ''{'') \<or> startsWith (trim t) (js ''['')"
  then show "parseAssistantJson parse (Some t) =
         (case parse (trim t) of Inr v \<Rightarrow> Inr v | Inl err \<Rightarrow> Inr JNull)"
    using assms by (simp add: parseAssistantJson_nonempty try_whole split: sum.splits)
next
  fix a m b
  assume "\<not> startsWith (trim t) (js ''{'') \<and> \<not> startsWith (trim t) (js ''['')"
    and "trim t = a @ js ''{'' @ m @ js ''}'' @ b \<and> 0x7B \<notin> set a \<and> 0x7D \<notin> set b"
  then have "parseAssistantJson_try parse (trim t) =
     (case parse (js ''{'' @ m @ js ''}'') of Inl err \<Rightarrow> Inl err | Inr v \<Rightarrow> Inr (Some v))"
    using try_span by blast
  then show "parseAssistantJson parse (Some t) =
      (case parse (js ''{'' @ m @ js ''}'') of Inr v \<Rightarrow> Inr v | Inl err \<Rightarrow> Inr JNull)"
    using assms by (simp add: parseAssistantJson_nonempty split: sum.splits)
next
  fix a b
  assume "\<not> startsWith (trim t) (js ''{'') \<and> \<not> startsWith (trim t) (js ''['')"
    and "trim t = a @ b \<and> 0x7B \<notin> set a \<and> 0x7D \<notin> set b"
  then have "parseAssistantJson_try parse (trim t) = Inr None"
    using try_no_markers by blast
  then show "parseAssistantJson parse (Some t) = Inr JNull"
    using assms by (simp add: parseAssistantJson_nonempty)
qed




theorem parseAssistantJson_algorithm_witness:
  \<open>parseAssistantJson JSON_parse
      (Some (js ''{"intent":"greet","fulfillment_text":"hi","data":{},"follow_up":{"should_ask":false,"questions":[]}}'')) =
     Inr (JObject
       [(js ''intent'', JString (js ''greet'')),
        (js ''fulfillment_text'', JString (js ''hi'')),
        (js ''data'', JObject []),
        (js ''follow_up'', JObject [(js ''should_ask'', JBool False), (js ''questions'', JArray [])])])
   \<and> parseAssistantJson JSON_parse
      (Some (js ''Sure! {"intent":"get_snapshot","data":{"today_kcal_consumed":500}} Let me know if you need more.'')) =
     Inr (JObject
       [(js ''intent'', JString (js ''get_snapshot'')),
        (js ''data'', JObject [(js ''today_kcal_consumed'', JNumber (js ''500''))])])
   \<and> parseAssistantJson JSON_parse (Some (js ''Sorry, I cannot help with that.'')) = Inr JNull\<close>
proof -
  let ?t1 = \<open>js ''{"intent":"greet","fulfillment_text":"hi","data":{},"follow_up":{"should_ask":false,"questions":[]}}''\<close>
  let ?t2 = \<open>js ''Sure! {"intent":"get_snapshot","data":{"today_kcal_consumed":500}} Let me know if you need more.''\<close>
  let ?t3 = \<open>js ''Sorry, I cannot help with that.''\<close>
  have ne: "?t1 \<noteq> []" "?t2 \<noteq> []" "?t3 \<noteq> []"
    by (simp_all add: js_def)
  have tr: "trim ?t1 = ?t1" "trim ?t2 = ?t2" "trim ?t3 = ?t3"
    by (simp_all add: trim_def js_def isWhiteSpace_def)
  have s1: "startsWith (trim ?t1) (js ''{'') \<or> startsWith (trim ?t1) (js ''['')"
    unfolding tr by (simp add: startsWith_def js_def)
  from parseAssistantJson_algorithm [OF ne(1), of JSON_parse] s1
  have "parseAssistantJson JSON_parse (Some ?t1) =
          (case JSON_parse (trim ?t1) of Inr v \<Rightarrow> Inr v | Inl err \<Rightarrow> Inr JNull)"
    by blast
  then have 1: "parseAssistantJson JSON_parse (Some ?t1) =
     Inr (JObject
       [(js ''intent'', JString (js ''greet'')),
        (js ''fulfillment_text'', JString (js ''hi'')),
        (js ''data'', JObject []),
        (js ''follow_up'', JObject [(js ''should_ask'', JBool False), (js ''questions'', JArray [])])])"
    unfolding tr by (simp add: json_eval)
  let ?m = \<open>js ''"intent":"get_snapshot","data":{"today_kcal_consumed":500}''\<close>
  have n2: "\<not> startsWith (trim ?t2) (js ''{'') \<and> \<not> startsWith (trim ?t2) (js ''['')"
    unfolding tr by (simp add: startsWith_def js_def)
  have d2: "trim ?t2 = js ''Sure! '' @ js ''{'' @ ?m @ js ''}'' @ js '' Let me know if you need more.''
      \<and> 0x7B \<notin> set (js ''Sure! '') \<and> 0x7D \<notin> set (js '' Let me know if you need more.'')"
    unfolding tr by (simp add: js_def)
  from parseAssistantJson_algorithm [OF ne(2), of JSON_parse] n2 d2
  have "parseAssistantJson JSON_parse (Some ?t2) =
          (case JSON_parse (js ''{'' @ ?m @ js ''}'') of Inr v \<Rightarrow> Inr v | Inl err \<Rightarrow> Inr JNull)"
    by blast
  then have 2: "parseAssistantJson JSON_parse (Some ?t2) =
     Inr (JObject
       [(js ''intent'', JString (js ''get_snapshot'')),
        (js ''data'', JObject [(js ''today_kcal_consumed'', JNumber (js ''500''))])])"
    by (simp add: json_eval)
  have n3: "\<not> startsWith (trim ?t3) (js ''{'') \<and> \<not> startsWith (trim ?t3) (js ''['')"
    unfolding tr by (simp add: startsWith_def js_def)
  have d3: "trim ?t3 = ?t3 @ [] \<and> 0x7B \<notin> set ?t3 \<and> 0x7D \<notin> set []"
    unfolding tr by (simp add: js_def)
  from parseAssistantJson_algorithm [OF ne(3), of JSON_parse] n3 d3
  have 3: "parseAssistantJson JSON_parse (Some ?t3) = Inr JNull"
    by blast
  from 1 2 3 show ?thesis by blast
qed

lemma trim_blank:
  assumes "\<forall>c \<in> set t. isWhiteSpace c"
  shows "trim t = []"
proof -
  have "dropWhile isWhiteSpace t = []"
    using assms by (induction t) simp_all
  then show ?thesis by (simp only: trim_def rev.simps dropWhile.simps)
qed

lemma try_empty: "parseAssistantJson_try parse [] = Inr None"
  by (simp add: parseAssistantJson_try_def startsWith_def js_def indexOf_def)

lemma parseAssistantJson_returns: "\<exists>v. parseAssistantJson parse text = Inr v"
  by (simp add: parseAssistantJson_def Let_def split: option.splits sum.splits)

lemma parseAssistantJson_result:
  "parseAssistantJson parse text = Inr JNull \<or> (\<exists>s. parse s = parseAssistantJson parse text)"
proof (cases "text")
  case None
  then show ?thesis by (simp add: parseAssistantJson_def)
next
  case (Some t)
  show ?thesis
  proof (cases "parseAssistantJson_try parse (trim t)")
    case (Inl err)
    then show ?thesis using Some by (simp add: parseAssistantJson_def)
  next
    case (Inr r)
    show ?thesis
    proof (cases r)
      case None
      then show ?thesis using Some Inr by (simp add: parseAssistantJson_def)
    next
      case (Some v)
      with Inr have "\<exists>s. parse s = Inr v"
        by (auto simp: parseAssistantJson_try_def Let_def split: if_splits sum.splits)
      then show ?thesis
        using \<open>text = Some t\<close> Inr Some by (auto simp: parseAssistantJson_def)
    qed
  qed
qed

lemma parse_always_fails:
  assumes "\<forall>s. \<exists>err. parse s = Inl err"
  shows "parseAssistantJson parse text = Inr JNull"
proof -
  have "parseAssistantJson_try parse trimmed \<noteq> Inr (Some v)" for trimmed v
    using assms
    by (auto simp: parseAssistantJson_try_def Let_def split: sum.splits)
       (metis sum.distinct(1))+
  then show ?thesis
    by (auto simp: parseAssistantJson_def Let_def split: option.splits sum.splits)
qed

text \<open>
  Claim C5. \<^verbatim>\<open>parseAssistantJson\<close> never throws: its result is always a returned value.
  For \<^verbatim>\<open>null\<close>, the empty string and a blank string the result is \<^verbatim>\<open>null\<close> whatever
  \<^verbatim>\<open>JSON.parse\<close> would do, so no parse decides it; if \<^verbatim>\<open>JSON.parse\<close> throws on every text
  the result is \<^verbatim>\<open>null\<close>; a result other than \<^verbatim>\<open>null\<close> is a value that \<^verbatim>\<open>JSON.parse\<close>
  returned; and the truncated text \<^verbatim>\<open>{"intent": "broken"\<close> gives \<^verbatim>\<open>null\<close>.
\<close>
theorem parseAssistantJson_never_throws:
  \<open>parseAssistantJson parse None = Inr JNull
   \<and> parseAssistantJson parse (Some []) = Inr JNull
   \<and> ((\<forall>c \<in> set t. isWhiteSpace c) \<longrightarrow> parseAssistantJson parse (Some t) = Inr JNull)
   \<and> (\<exists>v. parseAssistantJson parse text = Inr v)
   \<and> ((\<forall>s. \<exists>err. parse s = Inl err) \<longrightarrow> parseAssistantJson parse text = Inr JNull)
   \<and> (parseAssistantJson parse text = Inr JNull \<or> (\<exists>s. parse s = parseAssistantJson parse text))
   \<and> parseAssistantJson JSON_parse (Some (js ''{"intent": "broken"'')) = Inr JNull\<close>
proof -
  have blank: "(\<forall>c \<in> set t. isWhiteSpace c) \<longrightarrow> parseAssistantJson parse (Some t) = Inr JNull"
    by (simp add: parseAssistantJson_def trim_blank try_empty)
  have broken: \<open>parseAssistantJson JSON_parse (Some (js ''{"intent": "broken"'')) = Inr JNull\<close>
    by (simp add: parseAssistantJson_def parseAssistantJson_try_def trim_def isWhiteSpace_def
        startsWith_def JSON_parse_def js_def isJSONWhiteSpace_def)
  have none: "parseAssistantJson parse None = Inr JNull"
    and empty: "parseAssistantJson parse (Some []) = Inr JNull"
    by (simp_all add: parseAssistantJson_def)
  from none empty blank broken parseAssistantJson_returns [of parse "text"]
    parseAssistantJson_result [of parse "text"] parse_always_fails [of parse "text"]
  show ?thesis by blast
qed

theorem parseAssistantJson_never_throws_witness:
  \<open>list_all isWhiteSpace (js '' \<newline>  '')
   \<and> parseAssistantJson JSON_parse (Some (js '' \<newline>  '')) = Inr JNull
   \<and> parseAssistantJson (\<lambda>s. Inl SyntaxError) (Some (js ''{"intent":"greet"}'')) = Inr JNull\<close>
proof -
  have b: "\<forall>c \<in> set (js '' \<newline>  ''). isWhiteSpace c"
    by (simp add: js_def isWhiteSpace_def)
  have f: "\<forall>s. \<exists>err. (\<lambda>s. Inl SyntaxError :: js_error + jsval) s = Inl err"
    by simp
  from b parseAssistantJson_never_throws [of JSON_parse "js '' \<newline>  ''"]
  have 1: "parseAssistantJson JSON_parse (Some (js '' \<newline>  '')) = Inr JNull"
    by blast
  have 2: \<open>parseAssistantJson (\<lambda>s. Inl SyntaxError) (Some (js ''{"intent":"greet"}'')) = Inr JNull\<close>
    using f parseAssistantJson_never_throws
            [of "\<lambda>s. Inl SyntaxError" _ \<open>Some (js ''{"intent":"greet"}'')\<close>]
    by simp
  from b 1 2 show ?thesis by (simp add: list_all_iff)
qed


text \<open>
  For comparison, the same object between prose that has no brace of its own is recovered:
  a \<^verbatim>\<open>}\<close> inside a string literal lies before the last \<^verbatim>\<open>}\<close> of the text and does not
  move the span.
\<close>

lemma literal_brace_recovered:
  \<open>parseAssistantJson JSON_parse
     (Some (js ''Logged: '' @ js ''{"fulfillment_text":"Use } to close"}'' @ js '' Anything else?''))
   = Inr (JObject [(js ''fulfillment_text'', JString (js ''Use } to close''))])\<close>
  by (simp add: parseAssistantJson_def parseAssistantJson_try_def string_eval json_eval)

end
